theory Spec2Isabelle
  imports Main
begin

section \<open>The session handler of the front server (socket_connect.ts)\<close>

text \<open>
  The class \<open>SocketHandler\<close> relays messages between three event emitters: the client's
  socket, the handler of the back server and an optional workspace. Every method of the
  class is a function on the record of its fields; what a method does to its
  collaborators (a message emitted to the client, a call of the back server handler, a
  query of the database) is appended to a trace held in the record. An uncaught
  \<open>TypeError\<close> is the left summand of a method's result.
\<close>

subsection \<open>Values of the language\<close>

text \<open>
  The payloads that reach the handler are JSON values, and \<open>undefined\<close> where a part is
  absent. A string is the list of the bytes of its UTF-8 form. \<open>JNum n\<close> is the number
  with the integer value \<open>n\<close>; the model is exact for the integers that a double holds
  exactly and prints in plain decimal digits (below \<open>2 ^ 53\<close> in magnitude), and numbers
  with a fraction are not represented. \<open>JObj\<close> lists the own properties of a plain
  object, the first entry of a key being its value.
\<close>

datatype error = TypeError

datatype jsval =
    JUndefined
  | JNull
  | JBool bool
  | JNum int
  | JNaN
  | JStr string
  | JArr "jsval list"
  | JObj "(string \<times> jsval) list"

text \<open>\<open>ToBoolean\<close>: what \<open>if (x)\<close>, \<open>!x\<close>, \<open>x || y\<close> and \<open>x && y\<close> test.\<close>

fun truthy :: "jsval \<Rightarrow> bool" where
  "truthy JUndefined = False"
| "truthy JNull = False"
| "truthy (JBool b) = b"
| "truthy (JNum n) = (n \<noteq> 0)"
| "truthy JNaN = False"
| "truthy (JStr s) = (s \<noteq> [])"
| "truthy (JArr xs) = True"
| "truthy (JObj kvs) = True"

definition js_or :: "jsval \<Rightarrow> jsval \<Rightarrow> jsval" where
  "js_or a b = (if truthy a then a else b)"

definition js_and :: "jsval \<Rightarrow> jsval \<Rightarrow> jsval" where
  "js_and a b = (if truthy a then b else a)"

text \<open>
  \<open>v.k\<close> for the property names the handler reads (\<open>action\<close>, \<open>info\<close>, \<open>program\<close>,
  \<open>startTime\<close>, ...): none of them is a property of a prototype, so the read gives the
  own property of an object and \<open>undefined\<close> otherwise. The handler reads a property of
  a client's value only behind a test that the value is truthy, so the read of a
  property of \<open>null\<close> or \<open>undefined\<close> (a \<open>TypeError\<close>) does not arise for these reads.
\<close>

fun get :: "jsval \<Rightarrow> string \<Rightarrow> jsval" where
  "get (JObj kvs) k = (case map_of kvs k of Some v \<Rightarrow> v | None \<Rightarrow> JUndefined)"
| "get v k = JUndefined"

text \<open>\<open>xs[i]\<close> on an array: \<open>undefined\<close> out of range.\<close>

definition index :: "jsval list \<Rightarrow> nat \<Rightarrow> jsval" where
  "index xs i = (if i < length xs then xs ! i else JUndefined)"

text \<open>The decimal digits of a natural number, most significant first.\<close>

fun digits :: "nat \<Rightarrow> string" where
  "digits n =
     (if n < 10 then [char_of (48 + n)] else digits (n div 10) @ [char_of (48 + n mod 10)])"

declare digits.simps [simp del]

fun join_comma :: "string list \<Rightarrow> string" where
  "join_comma [] = []"
| "join_comma [s] = s"
| "join_comma (s # t) = s @ '','' @ join_comma t"

fun collect :: "(error + 'a) list \<Rightarrow> error + 'a list" where
  "collect [] = Inr []"
| "collect (Inl e # r) = Inl e"
| "collect (Inr x # r) = (case collect r of Inl e \<Rightarrow> Inl e | Inr xs \<Rightarrow> Inr (x # xs))"

text \<open>
  \<open>ToString\<close>, as string concatenation and \<open>parseInt\<close> apply it. An array joins the
  strings of its elements with commas, \<open>null\<close> and \<open>undefined\<close> giving the empty string.
  A plain object gives \<open>[object Object]\<close> through \<open>Object.prototype.toString\<close>; an own
  property \<open>toString\<close> hides that method and, being a JSON value, cannot be called, so the
  conversion throws.
\<close>

fun ToString :: "jsval \<Rightarrow> error + string" where
  "ToString JUndefined = Inr ''undefined''"
| "ToString JNull = Inr ''null''"
| "ToString (JBool b) = Inr (if b then ''true'' else ''false'')"
| "ToString (JNum n) = Inr (if n < 0 then CHR ''-'' # digits (nat (- n)) else digits (nat n))"
| "ToString JNaN = Inr ''NaN''"
| "ToString (JStr s) = Inr s"
| "ToString (JArr xs) =
     (case collect (map (\<lambda>x. if x = JNull \<or> x = JUndefined then Inr [] else ToString x) xs) of
        Inl e \<Rightarrow> Inl e
      | Inr ss \<Rightarrow> Inr (join_comma ss))"
| "ToString (JObj kvs) =
     (if map_of kvs ''toString'' \<noteq> None then Inl TypeError else Inr ''[object Object]'')"

text \<open>
  White space at the start of a string, as \<open>parseInt\<close> skips it: the ASCII white space
  and line terminators, and the UTF-8 forms of U+00A0, U+1680, U+2000 to U+200A, U+2028,
  U+2029, U+202F, U+205F, U+3000 and U+FEFF.
\<close>

definition ascii_space :: "char \<Rightarrow> bool" where
  "ascii_space c = (of_char c \<in> {9, 10, 11, 12, 13, 32 :: nat})"

definition space3 :: "char \<Rightarrow> char \<Rightarrow> char \<Rightarrow> bool" where
  "space3 a b c =
     (let x = (of_char a :: nat); y = (of_char b :: nat); z = (of_char c :: nat) in
        (x = 0xE1 \<and> y = 0x9A \<and> z = 0x80) \<or>
        (x = 0xE2 \<and> y = 0x80 \<and> ((0x80 \<le> z \<and> z \<le> 0x8A) \<or> z = 0xA8 \<or> z = 0xA9 \<or> z = 0xAF)) \<or>
        (x = 0xE2 \<and> y = 0x81 \<and> z = 0x9F) \<or>
        (x = 0xE3 \<and> y = 0x80 \<and> z = 0x80) \<or>
        (x = 0xEF \<and> y = 0xBB \<and> z = 0xBF))"

fun skip_space :: "string \<Rightarrow> string" where
  "skip_space [] = []"
| "skip_space (a # r) =
     (if ascii_space a then skip_space r
      else case r of
          [] \<Rightarrow> a # r
        | b # r2 \<Rightarrow>
            if (of_char a :: nat) = 0xC2 \<and> (of_char b :: nat) = 0xA0 then skip_space r2
            else (case r2 of
                [] \<Rightarrow> a # r
              | c # r3 \<Rightarrow> if space3 a b c then skip_space r3 else a # r))"

text \<open>The value of a character as a digit, and whether it is a digit of the radix.\<close>

definition digit_val :: "char \<Rightarrow> nat option" where
  "digit_val c =
     (let k = (of_char c :: nat) in
        if 48 \<le> k \<and> k \<le> 57 then Some (k - 48)
        else if 97 \<le> k \<and> k \<le> 122 then Some (k - 87)
        else if 65 \<le> k \<and> k \<le> 90 then Some (k - 55)
        else None)"

definition is_digit :: "nat \<Rightarrow> char \<Rightarrow> bool" where
  "is_digit radix c = (case digit_val c of None \<Rightarrow> False | Some d \<Rightarrow> d < radix)"

definition digits_value :: "nat \<Rightarrow> string \<Rightarrow> nat" where
  "digits_value radix z =
     foldl (\<lambda>acc c. acc * radix + (case digit_val c of None \<Rightarrow> 0 | Some d \<Rightarrow> d)) 0 z"

text \<open>
  \<open>parseInt(x)\<close> with no radix: the string of \<open>x\<close> without its leading white space, an
  optional sign, an optional \<open>0x\<close> or \<open>0X\<close> (which makes the radix 16), and the longest
  run of digits of the radix; \<open>NaN\<close> when that run is empty.
\<close>

definition parseInt_string :: "string \<Rightarrow> jsval" where
  "parseInt_string inputString =
     (let s = skip_space inputString;
          sign = (case s of c # r \<Rightarrow> if c = CHR ''-'' then - 1 else (1 :: int) | [] \<Rightarrow> 1);
          s = (case s of c # r \<Rightarrow> if c = CHR ''-'' \<or> c = CHR ''+'' then r else s | [] \<Rightarrow> s);
          hex = (case s of
                   a # b # r \<Rightarrow> a = CHR ''0'' \<and> (b = CHR ''x'' \<or> b = CHR ''X'')
                 | _ \<Rightarrow> False);
          radix = (if hex then 16 else 10);
          s = (if hex then drop 2 s else s);
          z = takeWhile (is_digit radix) s
      in if z = [] then JNaN else JNum (sign * int (digits_value radix z)))"

definition parseInt :: "jsval \<Rightarrow> error + jsval" where
  "parseInt x = (case ToString x of Inl e \<Rightarrow> Inl e | Inr s \<Rightarrow> Inr (parseInt_string s))"

subsection \<open>The data of a session\<close>

text \<open>
  \<open>IUser\<close> and \<open>IBucket\<close> are the documents of the user and bucket models, with the
  fields the handler reads or writes. \<open>_id\<close> and \<open>user_id\<close> are object ids, compared by
  \<open>equals\<close>; \<open>instructor\<close> is the array of the programs the user teaches; \<open>program\<close>
  and \<open>share_key\<close> hold the value that was stored, \<open>undefined\<close> or \<open>null\<close> when there is
  none.
\<close>

record IUser =
  user_oid :: string
  instructor :: "string list"
  share_key :: jsval
  program :: jsval
  consoleText :: string
  displayName :: string

record IBucket =
  bucket_id :: jsval
  user_id :: string
  main :: jsval

datatype store_error = StoreError string

text \<open>What is logged or sent to the client: a plain value, a document, or an object literal.\<close>

datatype sval =
    V jsval
  | VUsers "IUser list"
  | VBucket IBucket
  | VBuckets "IBucket list"
  | VErr store_error
  | VObj "(string \<times> sval) list"

text \<open>The methods of the class that are registered as listeners, and the callback of the
  startup task \<open>init\<close>, registered with \<open>once\<close>.\<close>

datatype listener =
    OnDataD | OnDestroyD | OnDataU | OnDestroyU
  | OnDataW | SendMessage | SetSessCode | OnDataWtoU | OnLogW
  | InitOnce

text \<open>The two workspace classes, with the arguments of their constructors.\<close>

datatype shared_arg = Info jsval | Host IUser

datatype workspace_class =
    SharedWorkspace string shared_arg
  | NormalWorkspace jsval "IUser option" jsval

text \<open>
  Modelled from the spec: the workspace classes are not part of this source unit. A
  workspace is an event emitter (\<open>on\<close> appends a listener, \<open>removeAllListeners\<close> removes
  them all) with a writable \<open>sessCode\<close>, \<open>None\<close> until the handler assigns it.
\<close>

record IWorkspace =
  ws_class :: workspace_class
  ws_listeners :: "(string \<times> listener) list"
  ws_sessCode :: "jsval option"

text \<open>The queries and updates of the user and bucket models; each takes a callback.\<close>

datatype store_call =
    User_findById jsval
  | User_find string
  | Bucket_find string
  | Bucket_findOne jsval
  | User_touchLastActivity IUser
  | User_setPassword IUser jsval
  | User_save IUser
  | User_createShareKey IUser
  | User_removeShareKey IUser
  | Bucket_save IBucket
  | Bucket_remove IBucket

text \<open>The trace: what the handler does to the console, the socket, the back server
  handler, the workspace and the database, in the order of the calls.\<close>

datatype effect =
    Log "sval list"
  | SocketEmit string "sval list"
  | BackSubscribe
  | BackUnsubscribe
  | BackDataD string jsval
  | BackSetSessCode jsval
  | WsSubscribe
  | WsUnsubscribe
  | WsDataD string jsval
  | WsDataU string jsval
  | WsDestroyD string
  | WsDestroyU string
  | WsBeginOctaveRequest
  | StoreCall store_call

text \<open>
  The fields of \<open>SocketHandler\<close>. The socket and the back server handler are event
  emitters, each with its list of listeners (modelled from the spec, as the workspace
  is). \<open>auto_user\<close> and \<open>auto_init\<close> are the results of the two startup tasks of
  \<open>Async.auto\<close> once they have called back, \<open>auto_user_pending\<close> says that the query of
  the task \<open>user\<close> has not called back yet, and \<open>auto_init_session\<close> that the task
  \<open>init_session\<close> has been started. The fields \<open>otServer\<close> and \<open>sessCode\<close> of the class
  are never read or written and are left out.
\<close>

record SocketHandler =
  socket_id :: string
  socket_listeners :: "(string \<times> listener) list"
  back_listeners :: "(string \<times> listener) list"
  workspace :: "IWorkspace option"
  user :: "IUser option"
  bucketId :: jsval
  destroyed :: bool
  auto_user_pending :: bool
  auto_user :: "IUser option option"
  auto_init :: "jsval option"
  auto_init_session :: bool
  effects :: "effect list"

definition do :: "SocketHandler \<Rightarrow> effect list \<Rightarrow> SocketHandler" where
  "do s es = s\<lparr>effects := effects s @ es\<rparr>"

text \<open>Modelled from the spec: \<open>emitter.on(event, listener)\<close> appends the listener.\<close>

definition on :: "(string \<times> listener) list \<Rightarrow> string \<Rightarrow> listener \<Rightarrow> (string \<times> listener) list" where
  "on ls event l = ls @ [(event, l)]"

subsection \<open>Listeners\<close>

definition unlisten :: "SocketHandler \<Rightarrow> SocketHandler" where
  "unlisten s =
     (let s = s\<lparr>socket_listeners := []\<rparr>;
          s = s\<lparr>back_listeners := []\<rparr>;
          s = do s [BackUnsubscribe]
      in case workspace s of
           None \<Rightarrow> s
         | Some w \<Rightarrow> do (s\<lparr>workspace := Some (w\<lparr>ws_listeners := []\<rparr>)\<rparr>) [WsUnsubscribe])"

definition listen :: "SocketHandler \<Rightarrow> SocketHandler" where
  "listen s =
     (let s = unlisten s;
          s = s\<lparr>socket_listeners := on (socket_listeners s) ''*'' OnDataD\<rparr>;
          s = s\<lparr>socket_listeners := on (socket_listeners s) ''disconnect'' OnDestroyD\<rparr>;
          s = s\<lparr>back_listeners := on (back_listeners s) ''data'' OnDataU\<rparr>;
          s = s\<lparr>back_listeners := on (back_listeners s) ''destroy-u'' OnDestroyU\<rparr>;
          s = (case workspace s of
                 None \<Rightarrow> s
               | Some w \<Rightarrow>
                   (let l = on (ws_listeners w) ''data'' OnDataW;
                        l = on l ''message'' SendMessage;
                        l = on l ''sesscode'' SetSessCode;
                        l = on l ''back'' OnDataWtoU;
                        l = on l ''log'' OnLogW
                    in do (s\<lparr>workspace := Some (w\<lparr>ws_listeners := l\<rparr>)\<rparr>) [WsSubscribe]))
      in do s [BackSubscribe])"

definition log :: "SocketHandler \<Rightarrow> sval list \<Rightarrow> SocketHandler" where
  "log s args = do s [Log (V (JStr (''['' @ socket_id s @ '']'')) # args)]"

definition sendMessage :: "SocketHandler \<Rightarrow> string \<Rightarrow> SocketHandler" where
  "sendMessage s message =
     do s [SocketEmit ''data''
             [V (JObj [(''type'', JStr ''stdout''), (''data'', JStr (message @ [CHR 0x0A]))])],
           SocketEmit ''alert'' [V (JStr message)]]"

subsection \<open>Main listener functions\<close>

definition onDestroyD :: "SocketHandler \<Rightarrow> SocketHandler" where
  "onDestroyD s =
     (let s = log s [V (JStr ''Client Disconnect'')];
          s = (case workspace s of
                 None \<Rightarrow> s
               | Some w \<Rightarrow> do s [WsDestroyD ''Client Disconnect''])
      in unlisten s)"

definition onDestroyU :: "SocketHandler \<Rightarrow> string \<Rightarrow> SocketHandler" where
  "onDestroyU s message =
     (let s = log s [V (JStr ''Upstream Destroyed:''), V (JStr message)];
          s = do s [SocketEmit ''destroy-u'' [V (JStr message)]];
          s = do s [BackSetSessCode JNull]
      in case workspace s of
           None \<Rightarrow> s
         | Some w \<Rightarrow> do s [WsDestroyU message])"

definition onDataW :: "SocketHandler \<Rightarrow> string \<Rightarrow> jsval \<Rightarrow> SocketHandler" where
  "onDataW s name data = do s [SocketEmit name [V data]]"

definition onLogW :: "SocketHandler \<Rightarrow> jsval list \<Rightarrow> SocketHandler" where
  "onLogW s data = log s (map V data)"

definition setSessCode :: "SocketHandler \<Rightarrow> jsval \<Rightarrow> SocketHandler" where
  "setSessCode s sessCode =
     (let s = log s [V (JStr ''SessCode''), V sessCode];
          s = do s [BackSetSessCode sessCode];
          s = do s [SocketEmit ''sesscode'' [V (JObj [(''sessCode'', sessCode)])]]
      in case workspace s of
           None \<Rightarrow> s
         | Some w \<Rightarrow> s\<lparr>workspace := Some (w\<lparr>ws_sessCode := Some sessCode\<rparr>)\<rparr>)"

definition onDataWtoU :: "SocketHandler \<Rightarrow> string \<Rightarrow> jsval \<Rightarrow> SocketHandler" where
  "onDataWtoU s name val = do s [BackDataD name val]"

subsection \<open>Other utility functions\<close>

text \<open>
  A method that queries the database returns once the query is issued (a \<open>StoreCall\<close> of
  the trace); the callback it passes is a function of its own, named after the method,
  which runs when the database answers with an error or a result.
\<close>

definition loadInstructor :: "SocketHandler \<Rightarrow> SocketHandler" where
  "loadInstructor s =
     (case user s of
        None \<Rightarrow> s
      | Some u \<Rightarrow>
          if instructor u = [] then s
          else do s (map (\<lambda>prog. StoreCall (User_find prog)) (instructor u)))"

definition loadInstructor_found ::
  "SocketHandler \<Rightarrow> string \<Rightarrow> store_error option \<Rightarrow> IUser list \<Rightarrow> SocketHandler" where
  "loadInstructor_found s prog err users =
     do s [SocketEmit ''instructor''
             [VObj [(''program'', V (JStr prog)), (''users'', VUsers users)]]]"

definition loadUserBuckets :: "SocketHandler \<Rightarrow> SocketHandler" where
  "loadUserBuckets s =
     (case user s of
        None \<Rightarrow> s
      | Some u \<Rightarrow> do s [StoreCall (Bucket_find (user_oid u))])"

definition loadUserBuckets_found ::
  "SocketHandler \<Rightarrow> store_error option \<Rightarrow> IBucket list \<Rightarrow> error + SocketHandler" where
  "loadUserBuckets_found s err buckets =
     (case err of
        Some e \<Rightarrow> Inr (log s [V (JStr ''LOAD USER BUCKETS ERROR''), VErr e])
      | None \<Rightarrow>
          (case user s of
             None \<Rightarrow> Inl TypeError
           | Some u \<Rightarrow>
               (let s = log s [V (JStr ''Loaded''), V (JNum (int (length buckets))),
                               V (JStr ''buckets for user''), V (JStr (consoleText u))]
                in Inr (do s [SocketEmit ''all-buckets'' [VObj [(''buckets'', VBuckets buckets)]]]))))"

definition touchUser :: "SocketHandler \<Rightarrow> SocketHandler" where
  "touchUser s =
     (case user s of
        None \<Rightarrow> s
      | Some u \<Rightarrow> do s [StoreCall (User_touchLastActivity u)])"

definition touchUser_done :: "SocketHandler \<Rightarrow> store_error option \<Rightarrow> SocketHandler" where
  "touchUser_done s err =
     (case err of
        Some e \<Rightarrow> log s [V (JStr ''TOUCH ACTIVITY ERROR''), VErr e]
      | None \<Rightarrow> s)"

definition loadBucket :: "SocketHandler \<Rightarrow> jsval \<Rightarrow> SocketHandler" where
  "loadBucket s skipCreate =
     (if \<not> truthy (bucketId s) then s
      else do s [StoreCall (Bucket_findOne (bucketId s))])"

definition loadBucket_found ::
  "SocketHandler \<Rightarrow> jsval \<Rightarrow> store_error option \<Rightarrow> IBucket option \<Rightarrow> error + SocketHandler" where
  "loadBucket_found s skipCreate err bucket =
     (case err of
        Some e \<Rightarrow>
          (let s = log s [V (JStr ''LOAD BUCKET ERROR''), VErr e]
           in Inr (sendMessage s ''Encountered error while initializing bucket.''))
      | None \<Rightarrow>
          (case bucket of
             None \<Rightarrow>
               (case ToString (bucketId s) of
                  Inl e \<Rightarrow> Inl e
                | Inr b \<Rightarrow>
                    (let s = sendMessage s (''Unable to find bucket: '' @ b);
                         s = do s [SocketEmit ''destroy-u'' [V (JStr ''Unknown Bucket'')]]
                     in Inr (s\<lparr>workspace := None\<rparr>)))
           | Some b \<Rightarrow>
               (let s = log s [V (JStr ''Bucket loaded:''), V (bucket_id b)];
                    s = do s [SocketEmit ''bucket-info'' [VBucket b]]
                in if \<not> truthy skipCreate
                   then (case workspace s of
                           None \<Rightarrow> Inl TypeError
                         | Some w \<Rightarrow> Inr (do s [WsBeginOctaveRequest]))
                   else Inr s)))"

definition onSetPassword :: "SocketHandler \<Rightarrow> jsval \<Rightarrow> SocketHandler" where
  "onSetPassword s obj =
     (if \<not> truthy obj then s
      else case user s of
          None \<Rightarrow> s
        | Some u \<Rightarrow> do s [StoreCall (User_setPassword u (get obj ''new_pwd''))])"

definition onSetPassword_done :: "SocketHandler \<Rightarrow> store_error option \<Rightarrow> SocketHandler" where
  "onSetPassword_done s err =
     (case err of
        Some e \<Rightarrow> log s [V (JStr ''SET PASSWORD ERROR''), VErr e]
      | None \<Rightarrow> sendMessage s ''Your password has been changed.'')"

definition onBucketCreated :: "SocketHandler \<Rightarrow> jsval \<Rightarrow> SocketHandler" where
  "onBucketCreated s obj =
     (if \<not> truthy obj then s
      else if \<not> truthy (get obj ''bucket_id'') then s
      else case user s of
          None \<Rightarrow>
            log s [V (JStr ''ERROR: No user but got bucket-created message!''),
                   V (get obj ''bucket_id'')]
        | Some u \<Rightarrow>
            (let s = log s [V (JStr ''Creating bucket:''), V (get obj ''bucket_id''),
                            V (JStr (consoleText u))];
                 bucket = \<lparr>bucket_id = get obj ''bucket_id'', user_id = user_oid u,
                            main = get obj ''main''\<rparr>
             in do s [StoreCall (Bucket_save bucket)]))"

definition onBucketCreated_saved ::
  "SocketHandler \<Rightarrow> IBucket \<Rightarrow> store_error option \<Rightarrow> SocketHandler" where
  "onBucketCreated_saved s bucket err =
     (case err of
        Some e \<Rightarrow> log s [V (JStr ''ERROR creating bucket:''), VErr e]
      | None \<Rightarrow> do s [SocketEmit ''bucket-created'' [VObj [(''bucket'', VBucket bucket)]]])"

definition onDeleteBucket :: "SocketHandler \<Rightarrow> jsval \<Rightarrow> SocketHandler" where
  "onDeleteBucket s obj =
     (if \<not> truthy obj then s
      else if \<not> truthy (get obj ''bucket_id'') then s
      else case user s of
          None \<Rightarrow> s
        | Some u \<Rightarrow>
            (let s = log s [V (JStr ''Deleting bucket:''), V (get obj ''bucket_id'')]
             in do s [StoreCall (Bucket_findOne (get obj ''bucket_id''))]))"

definition onDeleteBucket_found ::
  "SocketHandler \<Rightarrow> jsval \<Rightarrow> store_error option \<Rightarrow> IBucket option \<Rightarrow> error + SocketHandler" where
  "onDeleteBucket_found s obj err bucket =
     (case err of
        Some e \<Rightarrow>
          (let s = log s [V (JStr ''LOAD BUCKET ERROR''), VErr e]
           in Inr (sendMessage s ''Encountered error while finding bucket.''))
      | None \<Rightarrow>
          (case bucket of
             None \<Rightarrow> Inr (sendMessage s ''Unable to find bucket; did you already delete it?'')
           | Some b \<Rightarrow>
               (case user s of
                  None \<Rightarrow> Inl TypeError
                | Some u \<Rightarrow>
                    if user_oid u \<noteq> user_id b
                    then (let s = log s [V (JStr ''ERROR: Bad owner:''), V (JStr (user_id b)),
                                         V (JStr (consoleText u))]
                          in Inr (sendMessage s ''You are not the owner of that bucket''))
                    else Inr (do s [StoreCall (Bucket_remove b)]))))"

definition onDeleteBucket_removed ::
  "SocketHandler \<Rightarrow> jsval \<Rightarrow> store_error option \<Rightarrow> SocketHandler" where
  "onDeleteBucket_removed s obj err =
     (case err of
        Some e \<Rightarrow>
          (let s = log s [V (JStr ''REMOVE BUCKET ERROR''), VErr e]
           in sendMessage s ''Encountered error while removing bucket.'')
      | None \<Rightarrow>
          do s [SocketEmit ''bucket-deleted'' [V (JObj [(''bucket_id'', get obj ''bucket_id'')])]])"

definition onOoReconnect :: "SocketHandler \<Rightarrow> SocketHandler" where
  "onOoReconnect s =
     (case workspace s of
        Some w \<Rightarrow> do s [WsBeginOctaveRequest]
      | None \<Rightarrow> do s [SocketEmit ''destroy-u'' [V (JStr ''Invalid Session'')]])"

subsection \<open>Enrolling and students listener functions\<close>

text \<open>\<open>xs.indexOf(v)\<close> on an array of strings: the first index whose element is strictly
  equal to \<open>v\<close>, and \<open>-1\<close> when there is none.\<close>

fun indexOf_from :: "string list \<Rightarrow> jsval \<Rightarrow> int \<Rightarrow> int" where
  "indexOf_from [] v i = - 1"
| "indexOf_from (x # xs) v i = (if v = JStr x then i else indexOf_from xs v (i + 1))"

definition indexOf :: "string list \<Rightarrow> jsval \<Rightarrow> int" where
  "indexOf xs v = indexOf_from xs v 0"

definition onEnroll :: "SocketHandler \<Rightarrow> jsval \<Rightarrow> SocketHandler" where
  "onEnroll s obj =
     (case user s of
        None \<Rightarrow> s
      | Some u \<Rightarrow>
          if \<not> truthy obj then s
          else (let prog = get obj ''program'' in
                  if \<not> truthy prog then s
                  else (let s = log s [V (JStr ''Enrolling''), V (JStr (consoleText u)),
                                       V (JStr ''in program''), V prog];
                            u = u\<lparr>program := prog\<rparr>;
                            s = s\<lparr>user := Some u\<rparr>
                        in do s [StoreCall (User_save u)])))"

definition onEnroll_saved :: "SocketHandler \<Rightarrow> store_error option \<Rightarrow> SocketHandler" where
  "onEnroll_saved s err =
     (case err of
        Some e \<Rightarrow> log s [V (JStr ''MONGO ERROR''), VErr e]
      | None \<Rightarrow> sendMessage s ''Successfully enrolled'')"

definition onUpdateStudents :: "SocketHandler \<Rightarrow> jsval \<Rightarrow> SocketHandler" where
  "onUpdateStudents s obj =
     (if \<not> truthy obj then s
      else sendMessage s (''The update_students command has been replaced.'' @ [CHR 0x0A] @
                          ''Open a support ticket for more information.''))"

definition onUnenrollStudent :: "SocketHandler \<Rightarrow> jsval \<Rightarrow> SocketHandler" where
  "onUnenrollStudent s obj =
     (if \<not> truthy obj then s
      else if \<not> truthy (get obj ''userId'') then s
      else do s [StoreCall (User_findById (get obj ''userId''))])"

definition onUnenrollStudent_found ::
  "SocketHandler \<Rightarrow> store_error option \<Rightarrow> IUser option \<Rightarrow> error + SocketHandler" where
  "onUnenrollStudent_found s err student =
     (case err of
        Some e \<Rightarrow> Inr (log s [V (JStr ''MONGO ERROR''), VErr e])
      | None \<Rightarrow>
          (case user s of
             None \<Rightarrow> Inl TypeError
           | Some u \<Rightarrow>
               (case student of
                  None \<Rightarrow> Inl TypeError
                | Some st \<Rightarrow>
                    if indexOf (instructor u) (program st) = - 1
                    then Inr (log s [V (JStr ''Warning: illegal call to unenroll student'')])
                    else (let s = log s [V (JStr ''Un-enrolling''), V (JStr (consoleText u)),
                                         V (JStr ''from program''), V (program st)];
                              st = st\<lparr>program := JStr ''default''\<rparr>
                          in Inr (do s [StoreCall (User_save st)])))))"

definition onUnenrollStudent_saved ::
  "SocketHandler \<Rightarrow> IUser \<Rightarrow> store_error option \<Rightarrow> SocketHandler" where
  "onUnenrollStudent_saved s student err1 =
     (case err1 of
        Some e \<Rightarrow> log s [V (JStr ''MONGO ERROR''), VErr e]
      | None \<Rightarrow> sendMessage s (''Student successfully unenrolled: '' @ displayName student))"

definition onReenrollStudent :: "SocketHandler \<Rightarrow> jsval \<Rightarrow> error + SocketHandler" where
  "onReenrollStudent s obj =
     (if \<not> truthy obj then Inr s
      else if \<not> truthy (get obj ''userId'') then Inr s
      else if \<not> truthy (get obj ''program'') then Inr s
      else case user s of
          None \<Rightarrow> Inl TypeError
        | Some u \<Rightarrow>
            if indexOf (instructor u) (get obj ''program'') = - 1
            then (case ToString (get obj ''program'') of
                    Inl e \<Rightarrow> Inl e
                  | Inr p \<Rightarrow>
                      (let s = sendMessage s
                                 (''Student not re-enrolled: Cannot use the course code '' @ p)
                       in Inr (log s [V (JStr ''Warning: illegal call to re-enroll student'')])))
            else Inr (do s [StoreCall (User_findById (get obj ''userId''))]))"

definition onReenrollStudent_found ::
  "SocketHandler \<Rightarrow> jsval \<Rightarrow> store_error option \<Rightarrow> IUser option \<Rightarrow> error + SocketHandler" where
  "onReenrollStudent_found s obj err student =
     (case err of
        Some e \<Rightarrow> Inr (log s [V (JStr ''ERROR ON UNENROLL STUDENT''), VErr e])
      | None \<Rightarrow>
          (case user s of
             None \<Rightarrow> Inl TypeError
           | Some u \<Rightarrow>
               (case student of
                  None \<Rightarrow> Inl TypeError
                | Some st \<Rightarrow>
                    if indexOf (instructor u) (program st) = - 1
                    then Inr (log s [V (JStr ''Warning: illegal call to reenroll student'')])
                    else (let s = log s [V (JStr ''Re-enrolling''), V (JStr (consoleText u)),
                                         V (JStr ''from program''), V (program st),
                                         V (JStr ''to program''), V (get obj ''program'')];
                              st = st\<lparr>program := get obj ''program''\<rparr>
                          in Inr (do s [StoreCall (User_save st)])))))"

definition onReenrollStudent_saved ::
  "SocketHandler \<Rightarrow> IUser \<Rightarrow> store_error option \<Rightarrow> SocketHandler" where
  "onReenrollStudent_saved s student err1 =
     (case err1 of
        Some e \<Rightarrow> log s [V (JStr ''MONGO ERROR''), VErr e]
      | None \<Rightarrow> sendMessage s (''Student successfully re-enrolled: '' @ displayName student))"

definition onPing :: "SocketHandler \<Rightarrow> jsval \<Rightarrow> error + SocketHandler" where
  "onPing s obj =
     (if \<not> truthy obj then Inr s
      else case parseInt (get obj ''startTime'') of
          Inl e \<Rightarrow> Inl e
        | Inr t \<Rightarrow> Inr (do s [SocketEmit ''oo.pong'' [V (JObj [(''startTime'', t)])]]))"

definition onToggleSharing :: "SocketHandler \<Rightarrow> jsval \<Rightarrow> SocketHandler" where
  "onToggleSharing s obj =
     (case user s of
        None \<Rightarrow> s
      | Some u \<Rightarrow>
          if \<not> truthy obj then s
          else (let enabled = get obj ''enabled'' in
                  if \<not> truthy enabled \<and> truthy (program u) \<and> program u \<noteq> JStr ''default''
                  then sendMessage s
                         (''You must unenroll before disabling sharing.'' @ [CHR 0x0A] @
                          ''To unenroll, run the command '' @ [CHR 0x22] @ ''enroll('' @
                          [CHR 0x27] @ ''default'' @ [CHR 0x27] @ '')'' @ [CHR 0x22] @ ''.'')
                  else if truthy enabled then do s [StoreCall (User_createShareKey u)]
                  else (let s = (case workspace s of
                                   None \<Rightarrow> s
                                 | Some w \<Rightarrow> do s [WsDestroyD ''Sharing Disabled''])
                        in do s [StoreCall (User_removeShareKey u)])))"

definition onToggleSharing_done :: "SocketHandler \<Rightarrow> store_error option \<Rightarrow> SocketHandler" where
  "onToggleSharing_done s err =
     (let s = (case err of
                 Some e \<Rightarrow> log s [V (JStr ''MONGO ERROR''), VErr e]
               | None \<Rightarrow> s)
      in do s [SocketEmit ''reload'' [V (JObj [])]])"

subsection \<open>Data from downstream and from upstream\<close>

text \<open>
  \<open>onDataD\<close> receives the packet of the client, \<open>obj_data\<close> being its array
  \<open>obj.data\<close>: the name of the message and its payload. \<open>name.substr(0, 3)\<close> is the first three characters
  of a string, which are \<open>ot.\<close> or \<open>ws.\<close> exactly when its first three bytes are; a name
  that is truthy and not a string has no method \<open>substr\<close>, and the call throws.
\<close>

definition onDataD :: "SocketHandler \<Rightarrow> jsval list \<Rightarrow> error + SocketHandler" where
  "onDataD s obj_data =
     (let name = js_or (index obj_data 0) (JStr []);
          data = js_or (index obj_data 1) JNull
      in if name = JStr ''init'' then Inr s
         else if name = JStr ''enroll'' then Inr (onEnroll s data)
         else if name = JStr ''update_students'' then Inr (onUpdateStudents s data)
         else if name = JStr ''oo.unenroll_student'' then Inr (onUnenrollStudent s data)
         else if name = JStr ''oo.reenroll_student'' then onReenrollStudent s data
         else if name = JStr ''oo.ping'' then onPing s data
         else if name = JStr ''oo.toggle_sharing'' then Inr (onToggleSharing s data)
         else if name = JStr ''oo.reconnect'' then Inr (onOoReconnect s)
         else if name = JStr ''oo.set_password'' then Inr (onSetPassword s data)
         else if name = JStr ''oo.delete_bucket'' then Inr (onDeleteBucket s data)
         else case name of
             JStr n \<Rightarrow>
               if take 3 n = ''ot.'' \<or> take 3 n = ''ws.''
               then Inr (case workspace s of
                           None \<Rightarrow> s
                         | Some w \<Rightarrow> do s [WsDataD n data])
               else (let s = (if n = ''data'' \<and> workspace s \<noteq> None
                              then do s [WsDataD n data] else s);
                         s = (if n = ''save'' \<and> workspace s \<noteq> None
                              then do s [WsDataD n data] else s)
                     in Inr (do s [BackDataD n data]))
           | _ \<Rightarrow> Inl TypeError)"

definition onDataU :: "SocketHandler \<Rightarrow> string \<Rightarrow> jsval \<Rightarrow> SocketHandler" where
  "onDataU s name data =
     (let s = (case workspace s of
                 None \<Rightarrow> s
               | Some w \<Rightarrow> do s [WsDataU name data])
      in if name = ''bucket-repo-created'' then onBucketCreated s data
         else do s [SocketEmit name [V data]])"

subsection \<open>Startup tasks\<close>

text \<open>
  The callback of the task \<open>init_session\<close>, with the results of the tasks \<open>user\<close> and
  \<open>init\<close>. It calls \<open>next\<close> at its end, which completes the last task without an error
  and so leaves the final callback nothing to log.
\<close>

definition init_session :: "SocketHandler \<Rightarrow> IUser option \<Rightarrow> jsval \<Rightarrow> SocketHandler" where
  "init_session s usr init =
     (if destroyed s then s
      else
        (let s = s\<lparr>user := usr\<rparr>;
             s = loadInstructor s;
             s = loadUserBuckets s;
             s = touchUser s;
             action = js_and init (get init ''action'');
             info = js_and init (get init ''info'');
             oldSessCode = js_and init (get init ''sessCode'');
             skipCreate = js_and init (get init ''skipCreate'');
             oldSessCode = (if action = JStr ''session'' \<and> \<not> truthy oldSessCode
                            then info else oldSessCode);
             new = (\<lambda>c. Some \<lparr>ws_class = c, ws_listeners = [], ws_sessCode = None\<rparr>);
             r = (if action = JStr ''workspace'' then
                    if \<not> truthy info then None
                    else (let s = log s [V (JStr ''Attaching to colaborative workspace:''), V info]
                          in Some (s\<lparr>workspace := new (SharedWorkspace ''default'' (Info info))\<rparr>))
                  else if action = JStr ''student'' then
                    if \<not> truthy info then None
                    else (let s = log s [V (JStr ''Attaching to a student's workspace:''), V info]
                          in Some (s\<lparr>workspace := new (SharedWorkspace ''student'' (Info info))\<rparr>))
                  else if action = JStr ''bucket'' then
                    if \<not> truthy info then None
                    else (let s = log s [V (JStr ''Attaching to a bucket:''), V info]
                          in Some (s\<lparr>workspace := new (NormalWorkspace oldSessCode usr info)\<rparr>))
                  else
                    (case usr of
                       Some u \<Rightarrow>
                         if truthy (share_key u)
                         then (let s = log s [V (JStr ''Attaching as host to student's workspace:''),
                                              V (share_key u)]
                               in Some (s\<lparr>workspace := new (SharedWorkspace ''host'' (Host u))\<rparr>))
                         else (let s = log s [V (JStr ''Attaching to default workspace with sessCode''),
                                              V info]
                               in Some (s\<lparr>workspace := new (NormalWorkspace oldSessCode usr JNull)\<rparr>))
                     | None \<Rightarrow>
                         (let s = log s [V (JStr ''Attaching to default workspace with sessCode''),
                                         V info]
                          in Some (s\<lparr>workspace := new (NormalWorkspace oldSessCode usr JNull)\<rparr>))))
         in case r of
              None \<Rightarrow> s
            | Some s \<Rightarrow>
                (let s = listen s
                 in if action = JStr ''bucket'' then loadBucket (s\<lparr>bucketId := info\<rparr>) skipCreate
                    else if \<not> truthy skipCreate then do s [WsBeginOctaveRequest]
                    else s)))"

text \<open>
  \<open>Async.auto\<close> (the library's contract): a task runs once every task it depends on has
  a result; a task that calls back with an error stores no result, so the tasks that
  depend on it never run, and the final callback receives the error. \<open>auto_taskComplete\<close>
  is what follows the storing of a result: \<open>init_session\<close> starts when both results are
  there and it has not started before.
\<close>

definition auto_taskComplete :: "SocketHandler \<Rightarrow> SocketHandler" where
  "auto_taskComplete s =
     (case auto_user s of
        None \<Rightarrow> s
      | Some usr \<Rightarrow>
          (case auto_init s of
             None \<Rightarrow> s
           | Some init \<Rightarrow>
               if auto_init_session s then s
               else init_session (s\<lparr>auto_init_session := True\<rparr>) usr init))"

text \<open>The callback \<open>next\<close> of the task \<open>user\<close>, as \<open>User.findById\<close> calls it, and the final
  callback of \<open>Async.auto\<close> on its error. The query calls back once: an answer that
  comes when no query is open does nothing.\<close>

definition auto_user_next ::
  "SocketHandler \<Rightarrow> store_error option \<Rightarrow> IUser option \<Rightarrow> SocketHandler" where
  "auto_user_next s err usr =
     (if \<not> auto_user_pending s then s
      else (let s = s\<lparr>auto_user_pending := False\<rparr>
            in case err of
                 Some e \<Rightarrow> log s [V (JStr ''ASYNC ERROR''), VErr e]
               | None \<Rightarrow> auto_taskComplete (s\<lparr>auto_user := Some usr\<rparr>)))"

text \<open>The listener of the task \<open>init\<close>, registered with \<open>once\<close>: it is removed, then calls
  \<open>next\<close> with the data of the event.\<close>

definition auto_init_once :: "SocketHandler \<Rightarrow> jsval \<Rightarrow> SocketHandler" where
  "auto_init_once s data =
     (let s = s\<lparr>socket_listeners := remove1 (''init'', InitOnce) (socket_listeners s)\<rparr>
      in auto_taskComplete (s\<lparr>auto_init := Some data\<rparr>))"

text \<open>
  The constructor, for a socket with the given \<open>id\<close>, \<open>handshake.address\<close> and
  \<open>request.session\<close>. The task \<open>user\<close> either queries the database or has the result
  \<open>null\<close> at once; the task \<open>init\<close> registers its listener; the task \<open>init_session\<close> waits.
\<close>

definition constructor :: "string \<Rightarrow> jsval \<Rightarrow> jsval \<Rightarrow> SocketHandler" where
  "constructor sid address sess =
     (let s = \<lparr>socket_id = sid, socket_listeners = [], back_listeners = [],
                workspace = None, user = None, bucketId = JNull, destroyed = False,
                auto_user_pending = False, auto_user = None, auto_init = None,
                auto_init_session = False, effects = []\<rparr>;
          s = log s [V (JStr ''New Connection''), V address];
          s = do s [SocketEmit ''init'' []];
          s = listen s;
          userId = js_and (js_and sess (get sess ''passport'')) (get (get sess ''passport'') ''user'');
          s = (if truthy userId
               then (do s [StoreCall (User_findById userId)])\<lparr>auto_user_pending := True\<rparr>
               else s\<lparr>auto_user := Some None\<rparr>)
      in s\<lparr>socket_listeners := on (socket_listeners s) ''init'' InitOnce\<rparr>)"

subsection \<open>Events\<close>

text \<open>
  The arguments an emitter passes to its listeners, and the call of a listener with
  them. Each event has the arguments of one form; a listener is only registered for the
  events whose arguments it takes, and the last equation stands for the pairs that do
  not arise.
\<close>

datatype args =
    Packet "jsval list"
  | NoArgs
  | NameData string jsval
  | Message string
  | Value jsval
  | Values "jsval list"

fun invoke :: "listener \<Rightarrow> args \<Rightarrow> SocketHandler \<Rightarrow> error + SocketHandler" where
  "invoke OnDataD (Packet obj_data) s = onDataD s obj_data"
| "invoke OnDestroyD a s = Inr (onDestroyD s)"
| "invoke OnDataU (NameData name data) s = Inr (onDataU s name data)"
| "invoke OnDestroyU (Message message) s = Inr (onDestroyU s message)"
| "invoke OnDataW (NameData name data) s = Inr (onDataW s name data)"
| "invoke SendMessage (Message message) s = Inr (sendMessage s message)"
| "invoke SetSessCode (Value sessCode) s = Inr (setSessCode s sessCode)"
| "invoke OnDataWtoU (NameData name val) s = Inr (onDataWtoU s name val)"
| "invoke OnLogW (Values data) s = Inr (onLogW s data)"
| "invoke InitOnce (Value data) s = Inr (auto_init_once s data)"
| "invoke l a s = Inr s"

text \<open>Modelled from the spec: \<open>emitter.emit(event, ...)\<close> calls the listeners that are
  registered for the event when it is emitted, in the order of their registration; an
  exception of a listener ends the emission.\<close>

definition listeners :: "(string \<times> listener) list \<Rightarrow> string \<Rightarrow> listener list" where
  "listeners ls event = map snd (filter (\<lambda>el. fst el = event) ls)"

fun emit :: "listener list \<Rightarrow> args \<Rightarrow> SocketHandler \<Rightarrow> error + SocketHandler" where
  "emit [] a s = Inr s"
| "emit (l # ls) a s = (case invoke l a s of Inl e \<Rightarrow> Inl e | Inr s' \<Rightarrow> emit ls a s')"

text \<open>
  What can happen to a session: one of its three emitters emits an event, or the
  database answers a query, which runs the callback passed with it. Apart from the
  query of the task \<open>user\<close>, the model does not record which queries are open: the
  answer to a query may come in any state, with any result.
\<close>

datatype event =
    SocketEvent string args
  | BackEvent string args
  | WorkspaceEvent string args
  | Auto_user_next "store_error option" "IUser option"
  | LoadInstructor_found string "store_error option" "IUser list"
  | LoadUserBuckets_found "store_error option" "IBucket list"
  | TouchUser_done "store_error option"
  | LoadBucket_found jsval "store_error option" "IBucket option"
  | OnSetPassword_done "store_error option"
  | OnBucketCreated_saved IBucket "store_error option"
  | OnDeleteBucket_found jsval "store_error option" "IBucket option"
  | OnDeleteBucket_removed jsval "store_error option"
  | OnEnroll_saved "store_error option"
  | OnUnenrollStudent_found "store_error option" "IUser option"
  | OnUnenrollStudent_saved IUser "store_error option"
  | OnReenrollStudent_found jsval "store_error option" "IUser option"
  | OnReenrollStudent_saved IUser "store_error option"
  | OnToggleSharing_done "store_error option"

fun step :: "SocketHandler \<Rightarrow> event \<Rightarrow> error + SocketHandler" where
  "step s (SocketEvent ev a) = emit (listeners (socket_listeners s) ev) a s"
| "step s (BackEvent ev a) = emit (listeners (back_listeners s) ev) a s"
| "step s (WorkspaceEvent ev a) =
     (case workspace s of
        None \<Rightarrow> Inr s
      | Some w \<Rightarrow> emit (listeners (ws_listeners w) ev) a s)"
| "step s (Auto_user_next err usr) = Inr (auto_user_next s err usr)"
| "step s (LoadInstructor_found prog err users) = Inr (loadInstructor_found s prog err users)"
| "step s (LoadUserBuckets_found err buckets) = loadUserBuckets_found s err buckets"
| "step s (TouchUser_done err) = Inr (touchUser_done s err)"
| "step s (LoadBucket_found skipCreate err bucket) = loadBucket_found s skipCreate err bucket"
| "step s (OnSetPassword_done err) = Inr (onSetPassword_done s err)"
| "step s (OnBucketCreated_saved bucket err) = Inr (onBucketCreated_saved s bucket err)"
| "step s (OnDeleteBucket_found obj err bucket) = onDeleteBucket_found s obj err bucket"
| "step s (OnDeleteBucket_removed obj err) = Inr (onDeleteBucket_removed s obj err)"
| "step s (OnEnroll_saved err) = Inr (onEnroll_saved s err)"
| "step s (OnUnenrollStudent_found err student) = onUnenrollStudent_found s err student"
| "step s (OnUnenrollStudent_saved student err) = Inr (onUnenrollStudent_saved s student err)"
| "step s (OnReenrollStudent_found obj err student) = onReenrollStudent_found s obj err student"
| "step s (OnReenrollStudent_saved student err) = Inr (onReenrollStudent_saved s student err)"
| "step s (OnToggleSharing_done err) = Inr (onToggleSharing_done s err)"

fun run :: "SocketHandler \<Rightarrow> event list \<Rightarrow> error + SocketHandler" where
  "run s [] = Inr s"
| "run s (e # es) = (case step s e of Inl x \<Rightarrow> Inl x | Inr s' \<Rightarrow> run s' es)"

subsection \<open>The names of the routing table, and sessions to evaluate on\<close>

text \<open>The names \<open>onDataD\<close> handles itself, in the order of its \<open>switch\<close>.\<close>

definition reserved_names :: "string list" where
  "reserved_names =
     [''init'', ''enroll'', ''update_students'', ''oo.unenroll_student'', ''oo.reenroll_student'',
      ''oo.ping'', ''oo.toggle_sharing'', ''oo.reconnect'', ''oo.set_password'',
      ''oo.delete_bucket'']"

text \<open>The five listeners \<open>listen\<close> registers on a workspace.\<close>

definition workspace_listeners :: "(string \<times> listener) list" where
  "workspace_listeners =
     [(''data'', OnDataW), (''message'', SendMessage), (''sesscode'', SetSessCode),
      (''back'', OnDataWtoU), (''log'', OnLogW)]"

text \<open>
  \<open>guest_session\<close>: a connection without a login, before its \<open>init\<close> message.
  \<open>alice_session\<close>: the session of the instructor \<open>alice\<close> after her profile was found and
  her \<open>init\<close> message asked for the default session; it has a normal workspace.
  \<open>pending_session\<close>: a connection with a login whose profile query has not answered.
\<close>

definition guest_session :: SocketHandler where
  "guest_session = constructor ''sock1'' (JStr ''10.0.0.1'') JUndefined"

definition alice :: IUser where
  "alice = \<lparr>user_oid = ''u1'', instructor = [''math101''], share_key = JNull,
            program = JStr ''default'', consoleText = ''alice'', displayName = ''Alice''\<rparr>"

definition bob :: IUser where
  "bob = \<lparr>user_oid = ''u2'', instructor = [], share_key = JNull,
          program = JStr ''physics7'', consoleText = ''bob'', displayName = ''Bob''\<rparr>"

definition pending_session :: SocketHandler where
  "pending_session =
     constructor ''sock2'' (JStr ''10.0.0.2'')
       (JObj [(''passport'', JObj [(''user'', JStr ''u1'')])])"

definition alice_session :: SocketHandler where
  "alice_session =
     auto_init_once (auto_user_next pending_session None (Some alice))
       (JObj [(''action'', JStr ''session'')])"

text \<open>
  The state of a session whose task \<open>user\<close> has no result: nothing of \<open>init_session\<close> has
  happened, and the query of the task is still open (\<open>pending\<close>) or has failed.
\<close>

definition join_waiting :: "bool \<Rightarrow> SocketHandler \<Rightarrow> bool" where
  "join_waiting pending s =
     (auto_user s = None \<and> auto_user_pending s = pending \<and> \<not> auto_init_session s \<and>
      user s = None \<and> workspace s = None \<and> \<not> destroyed s)"

text \<open>The events that are an answer to the query of the task \<open>user\<close>.\<close>

fun user_answer :: "event \<Rightarrow> bool" where
  "user_answer (Auto_user_next err usr) = True"
| "user_answer ev = False"

text \<open>\<open>failed_lookup_session\<close>: the session with a login whose profile query failed, after
  its \<open>init\<close> message.\<close>

definition failed_lookup_session :: SocketHandler where
  "failed_lookup_session =
     auto_init_once (auto_user_next pending_session (Some (StoreError ''db'')) None)
       (JObj [(''action'', JStr ''session'')])"

section \<open>Properties\<close>

subsection \<open>Facts about the trace and the listeners\<close>

lemma effects_do: "effects (do s es) = effects s @ es"
  by (simp add: do_def)

lemma listen_socket_listeners:
  "socket_listeners (listen s) = [(''*'', OnDataD), (''disconnect'', OnDestroyD)]"
  by (simp add: listen_def unlisten_def on_def do_def Let_def split: option.splits)

lemma listen_back_listeners:
  "back_listeners (listen s) = [(''data'', OnDataU), (''destroy-u'', OnDestroyU)]"
  by (simp add: listen_def unlisten_def on_def do_def Let_def split: option.splits)

lemma listen_workspace:
  "workspace (listen s) =
     map_option (\<lambda>w. w\<lparr>ws_listeners := workspace_listeners\<rparr>) (workspace s)"
  by (simp add: listen_def unlisten_def on_def do_def Let_def workspace_listeners_def
      split: option.splits)

lemma unlisten_effects:
  "effects (unlisten s) =
     effects s @ BackUnsubscribe # (if workspace s = None then [] else [WsUnsubscribe])"
  by (simp add: unlisten_def do_def Let_def split: option.splits)

lemma unlisten_workspace:
  "workspace (unlisten s) = map_option (\<lambda>w. w\<lparr>ws_listeners := []\<rparr>) (workspace s)"
  by (simp add: unlisten_def do_def Let_def split: option.splits)

lemma listen_effects:
  "effects (listen s) =
     effects (unlisten s) @ (if workspace s = None then [] else [WsSubscribe]) @ [BackSubscribe]"
  by (simp add: listen_def unlisten_def on_def do_def Let_def split: option.splits)

lemma listen_funpow_workspace:
  "workspace ((listen ^^ Suc n) s) =
     map_option (\<lambda>w. w\<lparr>ws_listeners := workspace_listeners\<rparr>) (workspace s)"
proof (induction n)
  case 0
  show ?case by (simp add: listen_workspace)
next
  case (Suc n)
  have "workspace ((listen ^^ Suc (Suc n)) s) =
          map_option (\<lambda>w. w\<lparr>ws_listeners := workspace_listeners\<rparr>)
            (workspace ((listen ^^ Suc n) s))"
    by (simp add: listen_workspace)
  also have "\<dots> = map_option (\<lambda>w. w\<lparr>ws_listeners := workspace_listeners\<rparr>) (workspace s)"
    unfolding Suc.IH by (cases "workspace s") simp_all
  finally show ?case .
qed

lemma alice_session_workspace:
  "workspace alice_session =
     Some \<lparr>ws_class = NormalWorkspace JUndefined (Some alice) JNull,
           ws_listeners = workspace_listeners, ws_sessCode = None\<rparr>"
  by code_simp

lemma guest_session_workspace: "workspace guest_session = None"
  by code_simp

subsection \<open>Routing of the client's messages\<close>

text \<open>
  Claim C1, as the code has it. A message whose name starts with \<open>ot.\<close> or \<open>ws.\<close> goes to
  \<open>dataD\<close> of the workspace when there is one and is dropped otherwise; nothing reaches
  the back server handler. A message whose name is a string outside the routing table
  and without such a prefix goes to \<open>dataD\<close> of the back server handler under its name,
  with or without a workspace (\<open>data\<close> and \<open>save\<close> go to the workspace first when there is
  one). In both cases the payload is the second element of the packet when that is
  truthy, and \<open>null\<close> when it is absent or falsy.
\<close>

theorem onDataD_routing:
  "(take 3 n = ''ot.'' \<or> take 3 n = ''ws.'' \<longrightarrow>
      onDataD s (JStr n # rest) =
        Inr (case workspace s of
               None \<Rightarrow> s
             | Some w \<Rightarrow> do s [WsDataD n (if truthy (index rest 0) then index rest 0 else JNull)])) \<and>
   (n \<notin> set reserved_names \<and> take 3 n \<noteq> ''ot.'' \<and> take 3 n \<noteq> ''ws.'' \<longrightarrow>
      onDataD s (JStr n # rest) =
        Inr (do (if (n = ''data'' \<or> n = ''save'') \<and> workspace s \<noteq> None
                 then do s [WsDataD n (if truthy (index rest 0) then index rest 0 else JNull)]
                 else s)
               [BackDataD n (if truthy (index rest 0) then index rest 0 else JNull)]))"
proof (intro conjI impI)
  assume p: "take 3 n = ''ot.'' \<or> take 3 n = ''ws.''"
  then have "n \<notin> set reserved_names" "n \<noteq> []"
    by (auto simp: reserved_names_def)
  with p show "onDataD s (JStr n # rest) =
        Inr (case workspace s of
               None \<Rightarrow> s
             | Some w \<Rightarrow> do s [WsDataD n (if truthy (index rest 0) then index rest 0 else JNull)])"
    by (cases "workspace s")
      (simp_all add: onDataD_def index_def js_or_def reserved_names_def Let_def)
next
  assume "n \<notin> set reserved_names \<and> take 3 n \<noteq> ''ot.'' \<and> take 3 n \<noteq> ''ws.''"
  then show "onDataD s (JStr n # rest) =
        Inr (do (if (n = ''data'' \<or> n = ''save'') \<and> workspace s \<noteq> None
                 then do s [WsDataD n (if truthy (index rest 0) then index rest 0 else JNull)]
                 else s)
               [BackDataD n (if truthy (index rest 0) then index rest 0 else JNull)])"
    by (simp add: onDataD_def index_def js_or_def reserved_names_def Let_def do_def)
qed

theorem onDataD_routing_witness:
  "onDataD alice_session [JStr ''ot.insert'', JNum 5] =
     Inr (do alice_session [WsDataD ''ot.insert'' (JNum 5)]) \<and>
   onDataD guest_session [JStr ''anything.else'', JStr ''x''] =
     Inr (do guest_session [BackDataD ''anything.else'' (JStr ''x'')])"
  using onDataD_routing [of "''ot.insert''" alice_session "[JNum 5]"]
    onDataD_routing [of "''anything.else''" guest_session "[JStr ''x'']"]
  by (simp add: alice_session_workspace guest_session_workspace reserved_names_def index_def)

text \<open>
  The claim as stated fails on a falsy payload: the message \<open>anything.else\<close> with the
  payload \<open>0\<close>, on a session without a workspace, reaches the back server handler with
  the payload \<open>null\<close>.
\<close>

theorem onDataD_falsy_payload_counterexample:
  "onDataD guest_session [JStr ''anything.else'', JNum 0] =
     Inr (do guest_session [BackDataD ''anything.else'' JNull]) \<and>
   workspace guest_session = None \<and> ''anything.else'' \<notin> set reserved_names \<and>
   JNull \<noteq> JNum 0"
  by (simp add: onDataD_def index_def js_or_def Let_def guest_session_workspace
      reserved_names_def)

text \<open>A name that is truthy and not a string is outside both cases: \<open>substr\<close> is not a
  method of it, and the handler throws.\<close>

lemma onDataD_name_not_string:
  "truthy v \<Longrightarrow> (\<And>n. v \<noteq> JStr n) \<Longrightarrow> onDataD s (v # rest) = Inl TypeError"
  by (cases v) (auto simp: onDataD_def index_def js_or_def Let_def)

subsection \<open>Binding and unbinding of the listeners\<close>

text \<open>
  Claim C2. \<open>unlisten\<close> leaves the socket, the back server handler and the workspace (when
  there is one) without listeners, and unsubscribes the back server handler and the
  workspace. \<open>listen\<close> does all of \<open>unlisten\<close> before it registers and subscribes. After
  any number of calls of \<open>listen\<close> the listeners are those of one call: two on the socket,
  two on the back server handler and, when there is a workspace, five on it, none of
  them twice.
\<close>

theorem listen_rebind:
  "socket_listeners (unlisten s) = [] \<and> back_listeners (unlisten s) = [] \<and>
   workspace (unlisten s) = map_option (\<lambda>w. w\<lparr>ws_listeners := []\<rparr>) (workspace s) \<and>
   effects (unlisten s) =
     effects s @ BackUnsubscribe # (if workspace s = None then [] else [WsUnsubscribe]) \<and>
   effects (listen s) =
     effects (unlisten s) @ (if workspace s = None then [] else [WsSubscribe]) @ [BackSubscribe] \<and>
   socket_listeners ((listen ^^ Suc n) s) = [(''*'', OnDataD), (''disconnect'', OnDestroyD)] \<and>
   back_listeners ((listen ^^ Suc n) s) = [(''data'', OnDataU), (''destroy-u'', OnDestroyU)] \<and>
   workspace ((listen ^^ Suc n) s) =
     map_option (\<lambda>w. w\<lparr>ws_listeners := workspace_listeners\<rparr>) (workspace s) \<and>
   socket_listeners ((listen ^^ Suc n) s) = socket_listeners (listen s) \<and>
   back_listeners ((listen ^^ Suc n) s) = back_listeners (listen s) \<and>
   workspace ((listen ^^ Suc n) s) = workspace (listen s) \<and>
   distinct workspace_listeners"
proof -
  have "socket_listeners (unlisten s) = []" "back_listeners (unlisten s) = []"
    by (simp_all add: unlisten_def do_def Let_def split: option.splits)
  moreover have "distinct workspace_listeners"
    by (simp add: workspace_listeners_def)
  ultimately show ?thesis
    using unlisten_workspace [of s] unlisten_effects [of s] listen_effects [of s]
      listen_socket_listeners [of "(listen ^^ n) s"] listen_back_listeners [of "(listen ^^ n) s"]
      listen_funpow_workspace [of n s] listen_socket_listeners [of s]
      listen_back_listeners [of s] listen_workspace [of s]
    by simp
qed

subsection \<open>The join of the startup tasks on a destroyed session\<close>

text \<open>
  Claim C3. On a session whose flag \<open>destroyed\<close> is set, \<open>init_session\<close> returns at once:
  the session is as it was, so no user is attached, no query is issued, no workspace is
  created and nothing is sent to the client. Whichever of the two tasks calls back
  last, the trace, the user and the workspace stay as they were.
\<close>

theorem init_session_destroyed:
  "destroyed s \<Longrightarrow>
     init_session s usr init = s \<and>
     effects (auto_init_once s init) = effects s \<and>
     user (auto_init_once s init) = user s \<and>
     workspace (auto_init_once s init) = workspace s \<and>
     effects (auto_user_next s None usr) = effects s \<and>
     user (auto_user_next s None usr) = user s \<and>
     workspace (auto_user_next s None usr) = workspace s"
  by (simp add: init_session_def auto_init_once_def auto_user_next_def auto_taskComplete_def
      Let_def split: option.splits)

theorem init_session_destroyed_witness:
  "destroyed (guest_session\<lparr>destroyed := True\<rparr>) \<and>
   init_session (guest_session\<lparr>destroyed := True\<rparr>) None (JObj [(''action'', JStr ''session'')]) =
     guest_session\<lparr>destroyed := True\<rparr> \<and>
   effects (auto_init_once (guest_session\<lparr>destroyed := True\<rparr>) (JObj [(''action'', JStr ''session'')])) =
     effects (guest_session\<lparr>destroyed := True\<rparr>)"
  using init_session_destroyed [of "guest_session\<lparr>destroyed := True\<rparr>" None
      "JObj [(''action'', JStr ''session'')]"]
  by simp

subsection \<open>The session code\<close>

text \<open>
  Claim C6. \<open>setSessCode\<close> with the code \<open>c\<close> logs it, passes it to \<open>setSessCode\<close> of the back
  server handler and sends the client \<open>sesscode\<close> with the payload \<open>{sessCode: c}\<close>, in
  this order and whatever the session; it stores \<open>c\<close> on the workspace when there is one.
  It is the listener that \<open>listen\<close> registers for the event \<open>sesscode\<close> of the workspace,
  so this is what the event does.
\<close>

theorem setSessCode_effects:
  "effects (setSessCode s c) =
     effects s @
     [Log [V (JStr (''['' @ socket_id s @ '']'')), V (JStr ''SessCode''), V c],
      BackSetSessCode c,
      SocketEmit ''sesscode'' [V (JObj [(''sessCode'', c)])]] \<and>
   workspace (setSessCode s c) = map_option (\<lambda>w. w\<lparr>ws_sessCode := Some c\<rparr>) (workspace s) \<and>
   step (listen s) (WorkspaceEvent ''sesscode'' (Value c)) =
     Inr (case workspace s of None \<Rightarrow> listen s | Some w \<Rightarrow> setSessCode (listen s) c)"
proof -
  have "step (listen s) (WorkspaceEvent ''sesscode'' (Value c)) =
     Inr (case workspace s of None \<Rightarrow> listen s | Some w \<Rightarrow> setSessCode (listen s) c)"
    by (cases "workspace s")
      (simp_all add: listen_workspace listeners_def workspace_listeners_def)
  then show ?thesis
    by (simp add: setSessCode_def log_def do_def Let_def split: option.splits)
qed

subsection \<open>\<open>parseInt\<close> of an integer number\<close>















subsection \<open>The latency probe\<close>





subsection \<open>Deleting a bucket\<close>



subsection \<open>Unenrolling and re-enrolling a student\<close>






subsection \<open>Student requests on a session without a user\<close>

text \<open>
  Claim C9. On a session without a user, a re-enroll request with a truthy payload,
  \<open>userId\<close> and \<open>program\<close> throws a \<open>TypeError\<close> (\<open>onDataD\<close> passes it the payload), and an
  unenroll request with a truthy payload and \<open>userId\<close> issues its query, whose callback
  throws a \<open>TypeError\<close> when the query does not fail. The handlers of \<open>enroll\<close>,
  \<open>oo.set_password\<close>, \<open>oo.toggle_sharing\<close> and \<open>oo.delete_bucket\<close> test the user first and
  leave such a session as it is.
\<close>

theorem student_requests_without_user:
  "user s = None \<Longrightarrow>
     (truthy obj \<and> truthy (get obj ''userId'') \<and> truthy (get obj ''program'') \<longrightarrow>
        onReenrollStudent s obj = Inl TypeError \<and>
        onDataD s [JStr ''oo.reenroll_student'', obj] = Inl TypeError) \<and>
     (truthy obj \<and> truthy (get obj ''userId'') \<longrightarrow>
        onUnenrollStudent s obj = do s [StoreCall (User_findById (get obj ''userId''))] \<and>
        onDataD s [JStr ''oo.unenroll_student'', obj] =
          Inr (do s [StoreCall (User_findById (get obj ''userId''))])) \<and>
     onUnenrollStudent_found s None student = Inl TypeError \<and>
     onReenrollStudent_found s obj None student = Inl TypeError \<and>
     onEnroll s obj = s \<and> onSetPassword s obj = s \<and> onToggleSharing s obj = s \<and>
     onDeleteBucket s obj = s"
  by (simp add: onReenrollStudent_def onUnenrollStudent_def onUnenrollStudent_found_def
      onReenrollStudent_found_def onEnroll_def onSetPassword_def onToggleSharing_def
      onDeleteBucket_def onDataD_def index_def js_or_def Let_def)

theorem student_requests_without_user_witness:
  "user guest_session = None \<and>
   step guest_session
     (SocketEvent ''*'' (Packet [JStr ''oo.reenroll_student'',
                                 JObj [(''userId'', JStr ''u2''), (''program'', JStr ''math101'')]])) =
     Inl TypeError \<and>
   run guest_session
     [SocketEvent ''*'' (Packet [JStr ''oo.unenroll_student'', JObj [(''userId'', JStr ''u2'')]]),
      OnUnenrollStudent_found None (Some bob)] = Inl TypeError \<and>
   onEnroll guest_session (JObj [(''program'', JStr ''math101'')]) = guest_session"
proof -
  have u: "user guest_session = None" by code_simp
  have l: "listeners (socket_listeners guest_session) ''*'' = [OnDataD]" by code_simp
  have u': "user (do guest_session [StoreCall (User_findById (JStr ''u2''))]) = None"
    by (simp add: do_def u)
  show ?thesis
    using student_requests_without_user [OF u,
        where obj = "JObj [(''userId'', JStr ''u2''), (''program'', JStr ''math101'')]"]
      student_requests_without_user [OF u, where obj = "JObj [(''userId'', JStr ''u2'')]"]
      student_requests_without_user [OF u', where student = "Some bob"]
      student_requests_without_user [OF u, where obj = "JObj [(''program'', JStr ''math101'')]"]
    by (simp add: u l)
qed

subsection \<open>The flag \<open>destroyed\<close>\<close>

lemma destroyed_basic:
  "destroyed (do s es) = destroyed s"
  "destroyed (log s args) = destroyed s"
  "destroyed (sendMessage s m) = destroyed s"
  "destroyed (unlisten s) = destroyed s"
  "destroyed (listen s) = destroyed s"
  by (simp_all add: do_def log_def sendMessage_def unlisten_def listen_def Let_def
      split: option.splits)

lemma destroyed_listeners:
  "destroyed (onDestroyD s) = destroyed s"
  "destroyed (onDestroyU s m) = destroyed s"
  "destroyed (onDataW s name data) = destroyed s"
  "destroyed (onLogW s ds) = destroyed s"
  "destroyed (setSessCode s c) = destroyed s"
  "destroyed (onDataWtoU s name data) = destroyed s"
  by (simp_all add: onDestroyD_def onDestroyU_def onDataW_def onLogW_def setSessCode_def
      onDataWtoU_def destroyed_basic Let_def split: option.splits)

lemma destroyed_utilities:
  "destroyed (loadInstructor s) = destroyed s"
  "destroyed (loadInstructor_found s prog err users) = destroyed s"
  "destroyed (loadUserBuckets s) = destroyed s"
  "destroyed (touchUser s) = destroyed s"
  "destroyed (touchUser_done s err) = destroyed s"
  "destroyed (loadBucket s skipCreate) = destroyed s"
  "destroyed (onSetPassword s obj) = destroyed s"
  "destroyed (onSetPassword_done s err) = destroyed s"
  "destroyed (onBucketCreated s obj) = destroyed s"
  "destroyed (onBucketCreated_saved s bucket err) = destroyed s"
  "destroyed (onDeleteBucket s obj) = destroyed s"
  "destroyed (onDeleteBucket_removed s obj err) = destroyed s"
  "destroyed (onOoReconnect s) = destroyed s"
  by (simp_all add: loadInstructor_def loadInstructor_found_def loadUserBuckets_def touchUser_def
      touchUser_done_def loadBucket_def onSetPassword_def onSetPassword_done_def
      onBucketCreated_def onBucketCreated_saved_def onDeleteBucket_def onDeleteBucket_removed_def
      onOoReconnect_def destroyed_basic Let_def split: option.splits)

lemma destroyed_enrolling:
  "destroyed (onEnroll s obj) = destroyed s"
  "destroyed (onEnroll_saved s err) = destroyed s"
  "destroyed (onUpdateStudents s obj) = destroyed s"
  "destroyed (onUnenrollStudent s obj) = destroyed s"
  "destroyed (onUnenrollStudent_saved s student err) = destroyed s"
  "destroyed (onReenrollStudent_saved s student err) = destroyed s"
  "destroyed (onToggleSharing s obj) = destroyed s"
  "destroyed (onToggleSharing_done s err) = destroyed s"
  by (simp_all add: onEnroll_def onEnroll_saved_def onUpdateStudents_def onUnenrollStudent_def
      onUnenrollStudent_saved_def onReenrollStudent_saved_def onToggleSharing_def
      onToggleSharing_done_def destroyed_basic Let_def split: option.splits)

lemma destroyed_callbacks:
  "loadUserBuckets_found s err buckets = Inr s' \<Longrightarrow> destroyed s' = destroyed s"
  "loadBucket_found s skipCreate err bucket = Inr s' \<Longrightarrow> destroyed s' = destroyed s"
  "onDeleteBucket_found s obj err bucket = Inr s' \<Longrightarrow> destroyed s' = destroyed s"
  "onUnenrollStudent_found s err student = Inr s' \<Longrightarrow> destroyed s' = destroyed s"
  "onReenrollStudent s obj = Inr s' \<Longrightarrow> destroyed s' = destroyed s"
  "onReenrollStudent_found s obj err student = Inr s' \<Longrightarrow> destroyed s' = destroyed s"
  "onPing s obj = Inr s' \<Longrightarrow> destroyed s' = destroyed s"
  by (auto simp: loadUserBuckets_found_def loadBucket_found_def onDeleteBucket_found_def
      onUnenrollStudent_found_def onReenrollStudent_def onReenrollStudent_found_def onPing_def
      destroyed_basic Let_def split: option.splits sum.splits if_splits)

lemma destroyed_onDataD: "onDataD s obj_data = Inr s' \<Longrightarrow> destroyed s' = destroyed s"
  unfolding onDataD_def Let_def
  by (auto simp: destroyed_basic destroyed_utilities destroyed_enrolling
      dest: destroyed_callbacks split: if_splits jsval.splits option.splits)

lemma destroyed_onDataU: "destroyed (onDataU s name data) = destroyed s"
  by (simp add: onDataU_def destroyed_basic destroyed_utilities Let_def split: option.splits)

lemma destroyed_init_session: "destroyed (init_session s usr init) = destroyed s"
  unfolding init_session_def Let_def
  by (simp add: destroyed_basic destroyed_utilities split: option.splits)

lemma destroyed_auto:
  "destroyed (auto_taskComplete s) = destroyed s"
  "destroyed (auto_user_next s err usr) = destroyed s"
  "destroyed (auto_init_once s data) = destroyed s"
  by (simp_all add: auto_taskComplete_def auto_user_next_def auto_init_once_def
      destroyed_init_session destroyed_basic Let_def split: option.splits)

lemma destroyed_invoke: "invoke l a s = Inr s' \<Longrightarrow> destroyed s' = destroyed s"
  by (cases l; cases a)
    (auto simp: destroyed_basic destroyed_listeners destroyed_onDataU destroyed_auto
      dest: destroyed_onDataD)

lemma destroyed_emit: "emit ls a s = Inr s' \<Longrightarrow> destroyed s' = destroyed s"
proof (induction ls arbitrary: s)
  case Nil
  then show ?case by simp
next
  case (Cons l ls)
  then show ?case
    by (auto split: sum.splits dest: destroyed_invoke)
qed

lemma destroyed_step: "step s ev = Inr s' \<Longrightarrow> destroyed s' = destroyed s"
  by (cases ev)
    (auto simp: destroyed_utilities destroyed_enrolling destroyed_auto
      dest: destroyed_emit destroyed_callbacks split: option.splits)

lemma destroyed_run: "run s es = Inr s' \<Longrightarrow> destroyed s' = destroyed s"
proof (induction es arbitrary: s)
  case Nil
  then show ?case by simp
next
  case (Cons ev es)
  then show ?case
    by (auto split: sum.splits dest: destroyed_step)
qed

lemma destroyed_constructor: "\<not> destroyed (constructor sid address sess)"
  by (simp add: constructor_def destroyed_basic Let_def)

text \<open>
  Claim C10. A new session has \<open>destroyed = false\<close>, and no listener, no callback and no
  startup task changes the flag: every event leaves it as it was, so it is \<open>false\<close>
  after any sequence of events on a new session, and \<open>init_session\<close> then never takes
  its first \<open>return\<close>.
\<close>

theorem destroyed_never_set:
  "\<not> destroyed (constructor sid address sess) \<and>
   (step s ev = Inr s' \<longrightarrow> destroyed s' = destroyed s) \<and>
   (invoke l a s = Inr s' \<longrightarrow> destroyed s' = destroyed s) \<and>
   destroyed (init_session s usr init) = destroyed s \<and>
   destroyed (listen s) = destroyed s \<and> destroyed (unlisten s) = destroyed s \<and>
   (run (constructor sid address sess) es = Inr s' \<longrightarrow> \<not> destroyed s')"
  using destroyed_constructor [of sid address sess] destroyed_step [of s ev s']
    destroyed_invoke [of l a s s'] destroyed_init_session [of s usr init]
    destroyed_basic(4,5) [of s] destroyed_run [of "constructor sid address sess" es s']
  by simp

theorem destroyed_never_set_witness:
  "\<not> destroyed guest_session \<and>
   step guest_session (SocketEvent ''disconnect'' NoArgs) = Inr (onDestroyD guest_session) \<and>
   destroyed (onDestroyD guest_session) = destroyed guest_session"
proof -
  have st: "step guest_session (SocketEvent ''disconnect'' NoArgs) = Inr (onDestroyD guest_session)"
    by code_simp
  have g: "guest_session = constructor ''sock1'' (JStr ''10.0.0.1'') JUndefined"
    by (simp add: guest_session_def)
  show ?thesis
    using destroyed_never_set [where sid = "''sock1''" and address = "JStr ''10.0.0.1''"
        and sess = JUndefined and s = guest_session and ev = "SocketEvent ''disconnect'' NoArgs"
        and s' = "onDestroyD guest_session"] st
    unfolding g [symmetric] by simp
qed

subsection \<open>A failed profile lookup\<close>

lemma waiting_basic:
  "join_waiting p (do s es) = join_waiting p s"
  "join_waiting p (log s args) = join_waiting p s"
  "join_waiting p (sendMessage s m) = join_waiting p s"
  "join_waiting p (unlisten s) = join_waiting p s"
  "join_waiting p (listen s) = join_waiting p s"
  by (auto simp: join_waiting_def do_def log_def sendMessage_def unlisten_def listen_def Let_def
      split: option.splits)

lemma waiting_setSessCode: "join_waiting p (setSessCode s c) = join_waiting p s"
  by (auto simp: setSessCode_def join_waiting_def log_def do_def Let_def split: option.splits)

lemma waiting_listeners:
  "join_waiting p (onDestroyD s) = join_waiting p s"
  "join_waiting p (onDestroyU s m) = join_waiting p s"
  "join_waiting p (onDataW s name data) = join_waiting p s"
  "join_waiting p (onLogW s ds) = join_waiting p s"
  "join_waiting p (onDataWtoU s name data) = join_waiting p s"
  by (simp_all add: onDestroyD_def onDestroyU_def onDataW_def onLogW_def
      onDataWtoU_def waiting_basic Let_def split: option.splits)

lemma waiting_utilities:
  "join_waiting p (loadInstructor_found s prog err users) = join_waiting p s"
  "join_waiting p (touchUser_done s err) = join_waiting p s"
  "join_waiting p (onSetPassword s obj) = join_waiting p s"
  "join_waiting p (onSetPassword_done s err) = join_waiting p s"
  "join_waiting p (onBucketCreated s obj) = join_waiting p s"
  "join_waiting p (onBucketCreated_saved s bucket err) = join_waiting p s"
  "join_waiting p (onDeleteBucket s obj) = join_waiting p s"
  "join_waiting p (onDeleteBucket_removed s obj err) = join_waiting p s"
  "join_waiting p (onOoReconnect s) = join_waiting p s"
  by (simp_all add: loadInstructor_found_def touchUser_done_def onSetPassword_def
      onSetPassword_done_def onBucketCreated_def onBucketCreated_saved_def onDeleteBucket_def
      onDeleteBucket_removed_def onOoReconnect_def waiting_basic Let_def split: option.splits)

lemma waiting_onEnroll: "join_waiting p s \<Longrightarrow> onEnroll s obj = s"
  by (simp add: onEnroll_def join_waiting_def)

lemma waiting_enrolling:
  "join_waiting p (onEnroll_saved s err) = join_waiting p s"
  "join_waiting p (onUpdateStudents s obj) = join_waiting p s"
  "join_waiting p (onUnenrollStudent s obj) = join_waiting p s"
  "join_waiting p (onUnenrollStudent_saved s student err) = join_waiting p s"
  "join_waiting p (onReenrollStudent_saved s student err) = join_waiting p s"
  "join_waiting p (onToggleSharing s obj) = join_waiting p s"
  "join_waiting p (onToggleSharing_done s err) = join_waiting p s"
  by (simp_all add: onEnroll_saved_def onUpdateStudents_def onUnenrollStudent_def
      onUnenrollStudent_saved_def onReenrollStudent_saved_def onToggleSharing_def
      onToggleSharing_done_def waiting_basic Let_def split: option.splits)

lemma waiting_loadBucket_found:
  "loadBucket_found s skipCreate err bucket = Inr s' \<Longrightarrow> join_waiting p s \<Longrightarrow> join_waiting p s'"
  by (auto simp: loadBucket_found_def Let_def join_waiting_def do_def log_def sendMessage_def
      split: option.splits sum.splits if_splits)

lemma waiting_callbacks:
  "loadUserBuckets_found s err buckets = Inr s' \<Longrightarrow> join_waiting p s \<Longrightarrow> join_waiting p s'"
  "onDeleteBucket_found s obj err bucket = Inr s' \<Longrightarrow> join_waiting p s \<Longrightarrow> join_waiting p s'"
  "onUnenrollStudent_found s err student = Inr s' \<Longrightarrow> join_waiting p s \<Longrightarrow> join_waiting p s'"
  "onReenrollStudent s obj = Inr s' \<Longrightarrow> join_waiting p s \<Longrightarrow> join_waiting p s'"
  "onReenrollStudent_found s obj err student = Inr s' \<Longrightarrow> join_waiting p s \<Longrightarrow> join_waiting p s'"
  "onPing s obj = Inr s' \<Longrightarrow> join_waiting p s \<Longrightarrow> join_waiting p s'"
  by (auto simp: loadUserBuckets_found_def onDeleteBucket_found_def
      onUnenrollStudent_found_def onReenrollStudent_def onReenrollStudent_found_def onPing_def
      waiting_basic Let_def split: option.splits sum.splits if_splits)

lemma waiting_onDataD:
  "onDataD s obj_data = Inr s' \<Longrightarrow> join_waiting p s \<Longrightarrow> join_waiting p s'"
  unfolding onDataD_def Let_def
  by (auto simp: waiting_basic waiting_utilities waiting_enrolling waiting_onEnroll
      dest: waiting_callbacks split: if_splits jsval.splits option.splits)

lemma waiting_onDataU: "join_waiting p (onDataU s name data) = join_waiting p s"
  by (simp add: onDataU_def waiting_basic waiting_utilities Let_def split: option.splits)

lemma waiting_auto_init_once: "join_waiting p s \<Longrightarrow> join_waiting p (auto_init_once s data)"
  by (simp add: auto_init_once_def auto_taskComplete_def join_waiting_def Let_def)

lemma waiting_auto_user_next_failed:
  "join_waiting False s \<Longrightarrow> auto_user_next s err usr = s"
  by (simp add: auto_user_next_def join_waiting_def)

lemma waiting_invoke:
  "invoke l a s = Inr s' \<Longrightarrow> join_waiting p s \<Longrightarrow> join_waiting p s'"
  by (cases l; cases a)
    (auto simp: waiting_basic waiting_listeners waiting_setSessCode waiting_onDataU
      waiting_auto_init_once dest: waiting_onDataD)

lemma waiting_emit:
  "emit ls a s = Inr s' \<Longrightarrow> join_waiting p s \<Longrightarrow> join_waiting p s'"
proof (induction ls arbitrary: s)
  case Nil
  then show ?case by simp
next
  case (Cons l ls)
  then show ?case
    by (auto split: sum.splits dest: waiting_invoke)
qed

lemma waiting_step:
  assumes "step s ev = Inr s'" and "join_waiting p s" and "p \<Longrightarrow> \<not> user_answer ev"
  shows "join_waiting p s'"
proof (cases ev)
  case (Auto_user_next err usr)
  with assms(3) have "\<not> p" by auto
  with assms(1,2) Auto_user_next show ?thesis
    by (simp add: waiting_auto_user_next_failed)
next
  case (WorkspaceEvent e a)
  with assms(1,2) show ?thesis
    by (simp add: join_waiting_def)
qed (use assms(1,2) in \<open>auto simp: waiting_utilities waiting_enrolling
      dest: waiting_emit waiting_callbacks waiting_loadBucket_found\<close>)

lemma waiting_run:
  "run s es = Inr s' \<Longrightarrow> join_waiting p s \<Longrightarrow> (p \<Longrightarrow> filter user_answer es = []) \<Longrightarrow>
     join_waiting p s'"
proof (induction es arbitrary: s)
  case Nil
  then show ?case by simp
next
  case (Cons ev es)
  from Cons.prems(1) obtain s1 where s1: "step s ev = Inr s1" "run s1 es = Inr s'"
    by (auto split: sum.splits)
  have "p \<Longrightarrow> \<not> user_answer ev" "p \<Longrightarrow> filter user_answer es = []"
    using Cons.prems(3) by (auto split: if_splits)
  then show ?case
    using Cons.IH [OF s1(2)] waiting_step [OF s1(1) Cons.prems(2)] by blast
qed

lemma waiting_constructor:
  "truthy (js_and (js_and sess (get sess ''passport'')) (get (get sess ''passport'') ''user'')) \<Longrightarrow>
     join_waiting True (constructor sid address sess)"
  by (simp add: constructor_def Let_def join_waiting_def listen_def unlisten_def do_def log_def)

lemma waiting_error:
  "join_waiting True s \<Longrightarrow>
     join_waiting False (auto_user_next s (Some e) usr) \<and>
     effects (auto_user_next s (Some e) usr) =
       effects s @ [Log [V (JStr (''['' @ socket_id s @ '']'')), V (JStr ''ASYNC ERROR''), VErr e]]"
  by (simp add: auto_user_next_def join_waiting_def Let_def log_def do_def)

text \<open>
  Claim C4, as the code has it. Take a session with a login, at any moment before the
  profile query of the task \<open>user\<close> has answered (\<open>es1\<close> are the events until then). When
  the query fails, the final callback of \<open>Async.auto\<close> logs the error, and that is all:
  the flag \<open>destroyed\<close> stays \<open>false\<close>, and whatever happens afterwards (\<open>es2\<close>, the \<open>init\<close>
  message among it), \<open>init_session\<close> does not start: the session keeps the user \<open>null\<close>
  and gets no workspace.
\<close>

theorem profile_lookup_error:
  assumes "truthy (js_and (js_and sess (get sess ''passport'')) (get (get sess ''passport'') ''user''))"
    and "run (constructor sid address sess) es1 = Inr s1"
    and "filter user_answer es1 = []"
    and "run (auto_user_next s1 (Some e) usr) es2 = Inr s2"
  shows "effects (auto_user_next s1 (Some e) usr) =
           effects s1 @ [Log [V (JStr (''['' @ socket_id s1 @ '']'')), V (JStr ''ASYNC ERROR''), VErr e]] \<and>
         \<not> destroyed (auto_user_next s1 (Some e) usr) \<and>
         \<not> destroyed s2 \<and> \<not> auto_init_session s2 \<and> user s2 = None \<and> workspace s2 = None"
proof -
  have "join_waiting True s1"
    using waiting_run [OF assms(2) waiting_constructor [OF assms(1)]] assms(3) by simp
  then have e: "join_waiting False (auto_user_next s1 (Some e) usr)"
    and l: "effects (auto_user_next s1 (Some e) usr) =
           effects s1 @ [Log [V (JStr (''['' @ socket_id s1 @ '']'')), V (JStr ''ASYNC ERROR''), VErr e]]"
    using waiting_error by simp_all
  from waiting_run [OF assms(4) e] have "join_waiting False s2" by simp
  with e l show ?thesis
    by (simp add: join_waiting_def)
qed

theorem profile_lookup_error_witness:
  "run pending_session [SocketEvent ''init'' (Value (JObj [(''action'', JStr ''session'')]))] =
     Inr (auto_init_once pending_session (JObj [(''action'', JStr ''session'')])) \<and>
   run (auto_user_next (auto_init_once pending_session (JObj [(''action'', JStr ''session'')]))
          (Some (StoreError ''db'')) None)
       [SocketEvent ''*'' (Packet [JStr ''anything.else'', JStr ''x''])] =
     Inr (do (auto_user_next (auto_init_once pending_session (JObj [(''action'', JStr ''session'')]))
                (Some (StoreError ''db'')) None)
            [BackDataD ''anything.else'' (JStr ''x'')]) \<and>
   workspace (do (auto_user_next (auto_init_once pending_session (JObj [(''action'', JStr ''session'')]))
                (Some (StoreError ''db'')) None)
            [BackDataD ''anything.else'' (JStr ''x'')]) = None"
proof -
  have t: "truthy (js_and (js_and (JObj [(''passport'', JObj [(''user'', JStr ''u1'')])])
                (get (JObj [(''passport'', JObj [(''user'', JStr ''u1'')])]) ''passport''))
             (get (get (JObj [(''passport'', JObj [(''user'', JStr ''u1'')])]) ''passport'') ''user''))"
    by code_simp
  have r1: "run (constructor ''sock2'' (JStr ''10.0.0.2'') (JObj [(''passport'', JObj [(''user'', JStr ''u1'')])]))
       [SocketEvent ''init'' (Value (JObj [(''action'', JStr ''session'')]))] =
     Inr (auto_init_once pending_session (JObj [(''action'', JStr ''session'')]))"
    by code_simp
  have f: "filter user_answer [SocketEvent ''init'' (Value (JObj [(''action'', JStr ''session'')]))] = []"
    by simp
  have r2: "run (auto_user_next (auto_init_once pending_session (JObj [(''action'', JStr ''session'')]))
          (Some (StoreError ''db'')) None)
       [SocketEvent ''*'' (Packet [JStr ''anything.else'', JStr ''x''])] =
     Inr (do (auto_user_next (auto_init_once pending_session (JObj [(''action'', JStr ''session'')]))
                (Some (StoreError ''db'')) None)
            [BackDataD ''anything.else'' (JStr ''x'')])"
    by code_simp
  from profile_lookup_error [OF t r1 f r2] r1 r2 show ?thesis
    by (simp add: pending_session_def)
qed

text \<open>
  The claim as stated fails: after the failed lookup and the \<open>init\<close> message the task
  \<open>init_session\<close> has not started and there is no workspace, while the same \<open>init\<close>
  message on a connection without a login creates the default workspace.
\<close>

theorem profile_lookup_error_counterexample:
  "run pending_session
     [Auto_user_next (Some (StoreError ''db'')) None,
      SocketEvent ''init'' (Value (JObj [(''action'', JStr ''session'')]))] =
     Inr failed_lookup_session \<and>
   \<not> auto_init_session failed_lookup_session \<and>
   workspace failed_lookup_session = None \<and>
   effects failed_lookup_session =
     effects pending_session @
     [Log [V (JStr ''[sock2]''), V (JStr ''ASYNC ERROR''), VErr (StoreError ''db'')]] \<and>
   auto_init_session (auto_init_once guest_session (JObj [(''action'', JStr ''session'')])) \<and>
   workspace (auto_init_once guest_session (JObj [(''action'', JStr ''session'')])) =
     Some \<lparr>ws_class = NormalWorkspace JUndefined None JNull,
           ws_listeners = workspace_listeners, ws_sessCode = None\<rparr>"
  by code_simp

end
